theory Spec2Isabelle
  imports Complex_Main "HOL-Library.Stream"
begin

section \<open>Data model\<close>

text \<open>
  The request and response classes of \<^verbatim>\<open>backend/main.py\<close> (pydantic models) as records.
  A Python \<^verbatim>\<open>float\<close> is idealised as a real number: rounding, infinities and NaN of
  IEEE doubles are not represented, with one exception that is written out where it
  arises (\<^verbatim>\<open>np.mean\<close> of an empty list). A Python \<^verbatim>\<open>int\<close> is an \<open>int\<close>, unbounded
  as in Python; where the source multiplies an \<^verbatim>\<open>int\<close> by a float, the conversion of the
  integer and the OverflowError it raises beyond the range of a double are written out
  (\<open>py_float\<close>). A \<^verbatim>\<open>Dict\<close> is an association list in insertion order.
\<close>

record MLPredictionInput =
  temperature :: real
  humidity :: real
  populationDensity :: real
  previousCases :: int
  wastewaterLevels :: real
  socialMediaSentiment :: real
  timestamp :: string

record MLPredictionOutput =
  riskLevel :: real
  predictedCases :: real
  confidence :: real
  featureImportance :: "(string \<times> real) list"

record OptimizationInput =
  beds :: int
  nurses :: int
  doctors :: int
  equipment :: int
  currentWaitTimes :: "real list"
  patientFlow :: "real list"

record OptimizationOutput =
  optimizedAllocation :: "(string \<times> int) list"
  expectedImprovements :: "(string \<times> real) list"
  recommendations :: "string list"

text \<open>
  Exceptions raised inside a handler, and the one error a handler lets out
  (\<^verbatim>\<open>HTTPException(status_code, detail)\<close>).
\<close>

datatype py_exception =
  IndexError | ValueError | ZeroDivisionError | OverflowError | ModelError

datatype error = HTTPException nat string

text \<open>
  A loaded artifact is an external object; only its \<^verbatim>\<open>predict\<close> (or \<^verbatim>\<open>transform\<close>)
  method is used. It maps a 2-d array to a 2-d array or raises. Nothing is assumed about
  what it returns: any shape, any values.
\<close>

type_synonym predictor = "real list list \<Rightarrow> py_exception + real list list"

text \<open>
  The optimisation model is fed two entries computed by \<^verbatim>\<open>np.mean\<close>, which is NaN on an
  empty list; \<open>None\<close> stands for NaN in its input.
\<close>

type_synonym optimizer = "real option list list \<Rightarrow> py_exception + real list list"

text \<open>
  The state of numpy's global random generator is the stream of the draws to come;
  \<^verbatim>\<open>np.random.random()\<close> returns the next one, a float in \<open>[0, 1)\<close>, and advances.
\<close>

type_synonym rng = "real stream"

definition np_random_random :: "rng \<Rightarrow> real \<times> rng" where
  "np_random_random g = (shd g, stl g)"

definition rng_ok :: "rng \<Rightarrow> bool" where
  "rng_ok g = (\<forall>r \<in> sset g. 0 \<le> r \<and> r < 1)"

text \<open>Indexing \<^verbatim>\<open>a[i]\<close> with a non-negative index: IndexError out of range.\<close>

definition py_index :: "'a list \<Rightarrow> nat \<Rightarrow> py_exception + 'a" where
  "py_index xs i = (if i < length xs then Inr (xs ! i) else Inl IndexError)"

text \<open>Sequencing of two steps either of which may raise.\<close>

definition try_bind :: "'e + 'a \<Rightarrow> ('a \<Rightarrow> 'e + 'b) \<Rightarrow> 'e + 'b" where
  "try_bind r k = (case r of Inl e \<Rightarrow> Inl e | Inr x \<Rightarrow> k x)"

text \<open>
  The conversion of an \<^verbatim>\<open>int\<close> to a float, which Python performs when an \<^verbatim>\<open>int\<close> is
  multiplied by a float. CPython rounds the integer to the nearest double, ties to even,
  and raises OverflowError (\<^verbatim>\<open>int too large to convert to float\<close>) when the rounded
  value is beyond the largest double: that is from \<open>2 ^ 1024 - 2 ^ 970\<close> on, the midpoint
  between the largest double \<open>2 ^ 1024 - 2 ^ 971\<close> and \<open>2 ^ 1024\<close>. Below it the
  conversion is taken as exact.
\<close>

definition in_double_range :: "int \<Rightarrow> bool" where
  "in_double_range n = (\<bar>n\<bar> < 2 ^ 1024 - 2 ^ 970)"

definition py_float :: "int \<Rightarrow> py_exception + real" where
  "py_float n = (if in_double_range n then Inr (real_of_int n) else Inl OverflowError)"

section \<open>Prediction (main.py)\<close>

definition feature_importance :: "(string \<times> real) list" where
  "feature_importance =
     [(''temperature'', 0.85), (''humidity'', 0.72), (''populationDensity'', 0.68),
      (''previousCases'', 0.91), (''wastewaterLevels'', 0.63),
      (''socialMediaSentiment'', 0.45)]"

text \<open>
  \<^verbatim>\<open>simulate_prediction\<close>, main.py lines 238-265. The two products
  \<^verbatim>\<open>previousCases * 0.8\<close> and \<^verbatim>\<open>previousCases * 1.1\<close> convert the integer and may
  raise; the response is built afterwards, with one draw from the generator.
\<close>

definition simulate_prediction ::
  "MLPredictionInput \<Rightarrow> rng \<Rightarrow> py_exception + MLPredictionOutput \<times> rng" where
  "simulate_prediction input_data g =
     try_bind (py_float (previousCases input_data)) (\<lambda>c1.
       let risk_level = min 100 (max 0
             (30 + (temperature input_data - 20) * 0.5
                 + (humidity input_data - 50) * 0.3
                 + c1 * 0.8
                 + wastewaterLevels input_data * 0.6))
       in try_bind (py_float (previousCases input_data)) (\<lambda>c2.
            let predicted_cases = max 0
                  (c2 * 1.1
                      + (populationDensity input_data / 1000) * 0.5
                      + (socialMediaSentiment input_data - 0.5) * 10);
                (r, g') = np_random_random g
            in Inr (\<lparr>riskLevel = risk_level,
                     predictedCases = predicted_cases,
                     confidence = min 95 (70 + r * 25),
                     featureImportance = feature_importance\<rparr>, g')))"

text \<open>
  The model path of \<^verbatim>\<open>predict_outbreak\<close>, main.py lines 130-164: everything inside the
  \<^verbatim>\<open>try\<close> after the test for a missing model. \<open>Inl\<close> is an exception reaching the
  \<^verbatim>\<open>except\<close> clause. \<^verbatim>\<open>np.array\<close> does not raise on a large integer (it keeps it as
  an object); what the model then does with its input is the model's own.
\<close>

definition model_prediction :: "predictor \<Rightarrow> MLPredictionInput \<Rightarrow> py_exception + MLPredictionOutput" where
  "model_prediction model input_data =
     (let model_input = [[temperature input_data, humidity input_data,
                          populationDensity input_data,
                          real_of_int (previousCases input_data),
                          wastewaterLevels input_data,
                          socialMediaSentiment input_data]]
      in case model model_input of
           Inl e \<Rightarrow> Inl e
         | Inr prediction \<Rightarrow>
             (case py_index prediction 0 of
                Inl e \<Rightarrow> Inl e
              | Inr p0 \<Rightarrow>
                  (let risk_level = (if length p0 > 0 then p0 ! 0 else 50);
                       predicted_cases = (if length p0 > 1 then p0 ! 1 else 25);
                       conf = (if length p0 > 2 then p0 ! 2 else 85)
                   in Inr \<lparr>riskLevel = min 100 (max 0 risk_level),
                           predictedCases = max 0 predicted_cases,
                           confidence = min 100 (max 0 conf),
                           featureImportance = feature_importance\<rparr>)))"

text \<open>
  \<^verbatim>\<open>predict_outbreak\<close>, main.py lines 122-169. The first argument is the value of the
  global \<^verbatim>\<open>outbreak_model\<close> (\<open>None\<close> when no model was loaded). \<open>attempt\<close> is the
  body of the \<^verbatim>\<open>try\<close>, in which the simulation is called when no model is loaded.
  The \<^verbatim>\<open>except\<close> clause calls the simulation again, outside any \<^verbatim>\<open>try\<close>: an exception
  of that call leaves the handler.
\<close>

definition predict_outbreak ::
  "predictor option \<Rightarrow> MLPredictionInput \<Rightarrow> rng \<Rightarrow> py_exception + MLPredictionOutput \<times> rng" where
  "predict_outbreak model input_data g =
     (let attempt =
            (case model of
               None \<Rightarrow> simulate_prediction input_data g
             | Some m \<Rightarrow> try_bind (model_prediction m input_data) (\<lambda>out. Inr (out, g)))
      in case attempt of
           Inr res \<Rightarrow> Inr res
         | Inl e \<Rightarrow> simulate_prediction input_data g)"

text \<open>The bounds that the response of a prediction is to satisfy.\<close>

definition output_bounded :: "MLPredictionOutput \<Rightarrow> bool" where
  "output_bounded out =
     (0 \<le> riskLevel out \<and> riskLevel out \<le> 100 \<and> 0 \<le> predictedCases out
      \<and> 0 \<le> confidence out \<and> confidence out \<le> 100)"

text \<open>
  The simulation of the variants \<^verbatim>\<open>main-lstm.py\<close> (lines 333-360) and
  \<^verbatim>\<open>main-minimal.py\<close>: the same risk and case formulas, and a confidence computed from
  \<^verbatim>\<open>hash(str(timestamp)) % 25\<close> instead of a random draw. Python's string hash is fixed
  within one process; it is the parameter \<open>py_hash\<close>. Python's \<^verbatim>\<open>%\<close> with a positive
  divisor is never negative, as \<open>mod\<close> on \<open>int\<close>.
\<close>

definition simulate_prediction_lstm ::
  "(string \<Rightarrow> int) \<Rightarrow> MLPredictionInput \<Rightarrow> py_exception + MLPredictionOutput" where
  "simulate_prediction_lstm py_hash input_data =
     try_bind (py_float (previousCases input_data)) (\<lambda>c1.
       let risk_level = min 100 (max 0
             (30 + (temperature input_data - 20) * 0.5
                 + (humidity input_data - 50) * 0.3
                 + c1 * 0.8
                 + wastewaterLevels input_data * 0.6))
       in try_bind (py_float (previousCases input_data)) (\<lambda>c2.
            let predicted_cases = max 0
                  (c2 * 1.1
                      + (populationDensity input_data / 1000) * 0.5
                      + (socialMediaSentiment input_data - 0.5) * 10)
            in Inr \<lparr>riskLevel = risk_level,
                    predictedCases = predicted_cases,
                    confidence = min 95 (70 + real_of_int (py_hash (timestamp input_data) mod 25)),
                    featureImportance = feature_importance\<rparr>))"

text \<open>
  The clamp of the specification (section 4.3, \<^verbatim>\<open>clamp(x, 0, 100)\<close>), written from its
  words, to be compared with the nested \<^verbatim>\<open>min\<close> and \<^verbatim>\<open>max\<close> of the source.
\<close>

definition clamp :: "real \<Rightarrow> real \<Rightarrow> real \<Rightarrow> real" where
  "clamp x lo hi = (if x < lo then lo else if hi < x then hi else x)"

definition example_input :: MLPredictionInput where
  "example_input =
     \<lparr>temperature = 25.5, humidity = 60, populationDensity = 1500, previousCases = 20,
      wastewaterLevels = 45, socialMediaSentiment = 0.6,
      timestamp = ''2024-01-01T12:00:00Z''\<rparr>"

text \<open>The same request with \<^verbatim>\<open>previousCases = 10 ** 400\<close>, a valid non-negative count.\<close>

definition large_input :: MLPredictionInput where
  "large_input = example_input\<lparr>previousCases := 10 ^ 400\<rparr>"

section \<open>Batch prediction (main.py)\<close>

text \<open>
  The loop of \<^verbatim>\<open>predict_batch\<close>, main.py lines 229-232, over any per-item call \<open>f\<close> that
  returns a prediction and the new generator state, or raises. An exception leaves the
  loop at once; the list built so far is a local variable and is lost with it.
\<close>

fun batch_loop ::
  "(MLPredictionInput \<Rightarrow> rng \<Rightarrow> py_exception + MLPredictionOutput \<times> rng) \<Rightarrow>
   MLPredictionInput list \<Rightarrow> MLPredictionOutput list \<Rightarrow> rng \<Rightarrow>
   py_exception + MLPredictionOutput list \<times> rng" where
  "batch_loop f [] predictions g = Inr (predictions, g)"
| "batch_loop f (input_data # rest) predictions g =
     (case f input_data g of
        Inl e \<Rightarrow> Inl e
      | Inr (prediction, g') \<Rightarrow> batch_loop f rest (predictions @ [prediction]) g')"

text \<open>
  \<^verbatim>\<open>predict_batch\<close>, main.py lines 225-236, with the per-item call as a parameter: the
  \<^verbatim>\<open>try\<close> around the loop turns any exception into one \<^verbatim>\<open>HTTPException(500)\<close>. The
  response \<^verbatim>\<open>{"predictions": predictions}\<close> is its list.
\<close>

definition predict_batch_with ::
  "(MLPredictionInput \<Rightarrow> rng \<Rightarrow> py_exception + MLPredictionOutput \<times> rng) \<Rightarrow>
   MLPredictionInput list \<Rightarrow> rng \<Rightarrow> error + MLPredictionOutput list \<times> rng" where
  "predict_batch_with f inputs g =
     (case batch_loop f inputs [] g of
        Inl e \<Rightarrow> Inl (HTTPException 500 ''Batch prediction failed'')
      | Inr res \<Rightarrow> Inr res)"

text \<open>The handler itself: the per-item call is \<open>predict_outbreak\<close>.\<close>

definition predict_batch ::
  "predictor option \<Rightarrow> MLPredictionInput list \<Rightarrow> rng \<Rightarrow> error + MLPredictionOutput list \<times> rng" where
  "predict_batch model inputs g = predict_batch_with (predict_outbreak model) inputs g"

text \<open>The generator state that a batch leaves behind (the state itself if it fails).\<close>

definition rng_after :: "predictor option \<Rightarrow> MLPredictionInput list \<Rightarrow> rng \<Rightarrow> rng" where
  "rng_after model inputs g =
     (case predict_batch model inputs g of Inl e \<Rightarrow> g | Inr (predictions, g') \<Rightarrow> g')"

section \<open>Optimisation\<close>

definition fixed_recommendations :: "string list" where
  "fixed_recommendations =
     [''Redistribute 12 beds from General Ward to ICU'',
      ''Schedule additional nursing staff during peak hours (2-6 PM)'',
      ''Relocate portable equipment to Emergency Department'']"

text \<open>\<^verbatim>\<open>simulate_optimization\<close>, main.py lines 267-293.\<close>

definition simulate_optimization :: "OptimizationInput \<Rightarrow> OptimizationOutput" where
  "simulate_optimization input_data =
     \<lparr>optimizedAllocation =
        [(''beds'', min 100 (beds input_data + 5)),
         (''nurses'', min 150 (nurses input_data + 10)),
         (''doctors'', min 50 (doctors input_data + 2)),
         (''equipment'', min 100 (equipment input_data + 3))],
      expectedImprovements =
        [(''waitTimeReduction'', 28), (''bedUtilization'', 92),
         (''staffEfficiency'', 15), (''patientSatisfaction'', 22)],
      recommendations = fixed_recommendations\<rparr>"

text \<open>
  \<^verbatim>\<open>np.mean\<close> of a list of floats: on the empty list numpy warns and returns NaN
  (\<open>None\<close>); it does not raise.
\<close>

definition np_mean :: "real list \<Rightarrow> real option" where
  "np_mean xs = (if xs = [] then None else Some (sum_list xs / real (length xs)))"

text \<open>\<^verbatim>\<open>int(x)\<close> of a float: truncation towards zero.\<close>

definition py_int :: "real \<Rightarrow> int" where
  "py_int x = (if 0 \<le> x then \<lfloor>x\<rfloor> else \<lceil>x\<rceil>)"

text \<open>
  The model path of \<^verbatim>\<open>optimize_resources\<close>, main.py lines 179-218. The four reads
  \<^verbatim>\<open>optimization[0][0..3]\<close> are unguarded and raise IndexError on a short row; the four
  improvement reads are guarded by the row's length.
\<close>

definition model_optimization :: "optimizer \<Rightarrow> OptimizationInput \<Rightarrow> py_exception + OptimizationOutput" where
  "model_optimization model input_data =
     (let model_input = [[Some (real_of_int (beds input_data)),
                          Some (real_of_int (nurses input_data)),
                          Some (real_of_int (doctors input_data)),
                          Some (real_of_int (equipment input_data)),
                          np_mean (currentWaitTimes input_data),
                          np_mean (patientFlow input_data)]]
      in try_bind (model model_input) (\<lambda>optimization.
         try_bind (py_index optimization 0) (\<lambda>o0.
         try_bind (py_index o0 0) (\<lambda>x0.
         try_bind (py_index o0 1) (\<lambda>x1.
         try_bind (py_index o0 2) (\<lambda>x2.
         try_bind (py_index o0 3) (\<lambda>x3.
           Inr \<lparr>optimizedAllocation =
                  [(''beds'', min 100 (max 0 (py_int x0))),
                   (''nurses'', min 150 (max 0 (py_int x1))),
                   (''doctors'', min 50 (max 0 (py_int x2))),
                   (''equipment'', min 100 (max 0 (py_int x3)))],
                expectedImprovements =
                  [(''waitTimeReduction'', if length o0 > 4 then o0 ! 4 else 28),
                   (''bedUtilization'', if length o0 > 5 then o0 ! 5 else 92),
                   (''staffEfficiency'', if length o0 > 6 then o0 ! 6 else 15),
                   (''patientSatisfaction'', if length o0 > 7 then o0 ! 7 else 22)],
                recommendations = fixed_recommendations\<rparr>)))))))"

text \<open>
  \<^verbatim>\<open>optimize_resources\<close>, main.py lines 171-223. The first argument is the value of the
  global \<^verbatim>\<open>optimization_model\<close>.
\<close>

definition optimize_resources :: "optimizer option \<Rightarrow> OptimizationInput \<Rightarrow> OptimizationOutput" where
  "optimize_resources model input_data =
     (case model of
        None \<Rightarrow> simulate_optimization input_data
      | Some m \<Rightarrow>
          (case model_optimization m input_data of
             Inr out \<Rightarrow> out
           | Inl e \<Rightarrow> simulate_optimization input_data))"

text \<open>
  \<^verbatim>\<open>optimize_resources\<close> of the variant \<^verbatim>\<open>main-working.py\<close>, lines 161-198: no model,
  improvements computed from the mean wait time with \<^verbatim>\<open>sum(xs) / len(xs)\<close>, which raises
  ZeroDivisionError on the empty list, and from \<^verbatim>\<open>(nurses + doctors) * 0.1\<close>, which
  converts an integer; the \<^verbatim>\<open>except\<close> clause answers any exception with
  \<^verbatim>\<open>HTTPException(500)\<close>.
\<close>

definition py_average :: "real list \<Rightarrow> py_exception + real" where
  "py_average xs =
     (if length xs = 0 then Inl ZeroDivisionError else Inr (sum_list xs / real (length xs)))"

definition optimize_resources_working :: "OptimizationInput \<Rightarrow> error + OptimizationOutput" where
  "optimize_resources_working input_data =
     (let optimized_allocation =
            [(''beds'', min 100 (beds input_data + 5)),
             (''nurses'', min 150 (nurses input_data + 10)),
             (''doctors'', min 50 (doctors input_data + 2)),
             (''equipment'', min 100 (equipment input_data + 3))];
          attempt =
            try_bind (py_average (currentWaitTimes input_data)) (\<lambda>avg_wait_time.
              let wait_reduction = min 40 (max 15 (avg_wait_time * 0.3))
              in try_bind (py_float (nurses input_data + doctors input_data)) (\<lambda>staff.
                   Inr \<lparr>optimizedAllocation = optimized_allocation,
                          expectedImprovements =
                            [(''waitTimeReduction'', wait_reduction),
                             (''bedUtilization'', min 95 (real_of_int (beds input_data + 10))),
                             (''staffEfficiency'', min 25 (staff * 0.1)),
                             (''patientSatisfaction'', min 30 (wait_reduction * 0.8))],
                          recommendations = fixed_recommendations\<rparr>))
      in case attempt of
           Inl e \<Rightarrow> Inl (HTTPException 500 ''Optimization failed'')
         | Inr out \<Rightarrow> Inr out)"

definition example_resources :: OptimizationInput where
  "example_resources =
     \<lparr>beds = 85, nurses = 120, doctors = 35, equipment = 90,
      currentWaitTimes = [78, 45, 62, 35, 41], patientFlow = [12, 15, 9]\<rparr>"

section \<open>Startup and model information\<close>

text \<open>
  What a model file is at startup: absent, present but failing to load, or present and
  loading to a value.
\<close>

datatype 'a artifact_file = Missing | Corrupt | Loadable 'a

fun is_not_None :: "'a option \<Rightarrow> bool" where
  "is_not_None None = False"
| "is_not_None (Some x) = True"

text \<open>
  The globals of main.py that startup writes: \<^verbatim>\<open>outbreak_model\<close>,
  \<^verbatim>\<open>optimization_model\<close> and \<^verbatim>\<open>model_info["isLoaded"]\<close>, which \<^verbatim>\<open>get_model_info\<close>
  returns as it is.
\<close>

record ('p, 'o) model_state =
  outbreak_model :: "'p option"
  optimization_model :: "'o option"
  isLoaded :: bool

text \<open>
  \<^verbatim>\<open>if os.path.exists(path): model = joblib.load(path)\<close>: nothing when the file is
  absent, the value when it loads, an exception when it does not.
\<close>

fun load_if_exists :: "'a artifact_file \<Rightarrow> py_exception + 'a option" where
  "load_if_exists Missing = Inr None"
| "load_if_exists Corrupt = Inl ModelError"
| "load_if_exists (Loadable m) = Inr (Some m)"

text \<open>
  \<^verbatim>\<open>startup_event\<close>, main.py lines 79-106. One \<^verbatim>\<open>try\<close> spans both loads and the
  assignment of \<^verbatim>\<open>isLoaded\<close>; its \<^verbatim>\<open>except\<close> clause sets \<^verbatim>\<open>isLoaded\<close> to False and
  keeps the globals already assigned.
\<close>

definition startup_event :: "'p artifact_file \<Rightarrow> 'o artifact_file \<Rightarrow> ('p, 'o) model_state" where
  "startup_event outbreak_file optimization_file =
     (let st0 = \<lparr>outbreak_model = None, optimization_model = None, isLoaded = False\<rparr>
      in case load_if_exists outbreak_file of
           Inl e \<Rightarrow> st0\<lparr>isLoaded := False\<rparr>
         | Inr loaded1 \<Rightarrow>
             (let st1 = (case loaded1 of None \<Rightarrow> st0 | Some m \<Rightarrow> st0\<lparr>outbreak_model := Some m\<rparr>)
              in case load_if_exists optimization_file of
                   Inl e \<Rightarrow> st1\<lparr>isLoaded := False\<rparr>
                 | Inr loaded2 \<Rightarrow>
                     (let st2 = (case loaded2 of None \<Rightarrow> st1
                                 | Some m \<Rightarrow> st1\<lparr>optimization_model := Some m\<rparr>)
                      in st2\<lparr>isLoaded := (is_not_None (outbreak_model st2)
                                           \<or> is_not_None (optimization_model st2))\<rparr>)))"

text \<open>
  The variant main-lstm.py: three artifacts, and two flags for the optional libraries.
\<close>

record ('m, 's, 'o) lstm_env =
  TENSORFLOW_AVAILABLE :: bool
  SKLEARN_AVAILABLE :: bool
  lstm_model_file :: "'m artifact_file"
  scaler_file :: "'s artifact_file"
  optimization_model_file :: "'o artifact_file"

record ('m, 's, 'o) lstm_state =
  lstm_model :: "'m option"
  scaler :: "'s option"
  optimization_model_lstm :: "'o option"
  isLoaded_lstm :: bool
  modelType :: string

text \<open>
  \<^verbatim>\<open>load_lstm_model\<close> and \<^verbatim>\<open>load_scaler\<close>, main-lstm.py lines 101-129: the new value of
  the global and the returned flag. The loader raises on an absent file as on a bad one;
  both are caught and give False.
\<close>

definition load_lstm_model :: "bool \<Rightarrow> 'm artifact_file \<Rightarrow> 'm option \<times> bool" where
  "load_lstm_model tensorflow_available file =
     (if tensorflow_available
      then (case file of Loadable m \<Rightarrow> (Some m, True) | Missing \<Rightarrow> (None, False)
            | Corrupt \<Rightarrow> (None, False))
      else (None, False))"

definition load_scaler :: "bool \<Rightarrow> 's artifact_file \<Rightarrow> 's option \<times> bool" where
  "load_scaler sklearn_available file =
     (if sklearn_available
      then (case file of Loadable s \<Rightarrow> (Some s, True) | Missing \<Rightarrow> (None, False)
            | Corrupt \<Rightarrow> (None, False))
      else (None, False))"

text \<open>\<^verbatim>\<open>startup_event\<close>, main-lstm.py lines 197-232.\<close>

definition startup_event_lstm :: "('m, 's, 'o) lstm_env \<Rightarrow> ('m, 's, 'o) lstm_state" where
  "startup_event_lstm env =
     (let (lm, lstm_loaded) = load_lstm_model (TENSORFLOW_AVAILABLE env) (lstm_model_file env);
          (sc, scaler_loaded) = load_scaler (SKLEARN_AVAILABLE env) (scaler_file env);
          om = (case optimization_model_file env of
                  Loadable m \<Rightarrow> (if SKLEARN_AVAILABLE env then Some m else None)
                | Missing \<Rightarrow> None
                | Corrupt \<Rightarrow> None)
      in \<lparr>lstm_model = lm, scaler = sc, optimization_model_lstm = om,
          isLoaded_lstm = (lstm_loaded \<or> scaler_loaded),
          modelType = (if lstm_loaded then ''LSTM'' else ''Simulation'')\<rparr>)"

section \<open>Preprocessing for the sequence model (main-lstm.py)\<close>

text \<open>
  A 2-d array is the list of its rows, a 3-d array the list of its 2-d slices.
  \<^verbatim>\<open>np.tile(a, (n, 1))\<close> stacks \<open>n\<close> copies of the rows of \<open>a\<close>;
  \<^verbatim>\<open>a.reshape(1, n, k)\<close> raises ValueError unless \<open>a\<close> has \<open>n * k\<close> elements and
  otherwise cuts them, in order, into \<open>n\<close> rows of \<open>k\<close>.
\<close>

definition np_tile_rows :: "'a list list \<Rightarrow> nat \<Rightarrow> 'a list list" where
  "np_tile_rows a n = concat (replicate n a)"

definition np_reshape_1 :: "'a list list \<Rightarrow> nat \<Rightarrow> nat \<Rightarrow> py_exception + 'a list list list" where
  "np_reshape_1 a n k =
     (let flat = concat a
      in if length flat = n * k
         then Inr [map (\<lambda>i. take k (drop (i * k) flat)) [0..<n]]
         else Inl ValueError)"

text \<open>
  \<^verbatim>\<open>features.shape[1]\<close>, the number of columns: the length of the first row. An array
  with no row is not expected from a scaler and is treated as an error.
\<close>

fun np_shape_1 :: "'a list list \<Rightarrow> py_exception + nat" where
  "np_shape_1 [] = Inl ValueError"
| "np_shape_1 (row # rows) = Inr (length row)"

text \<open>
  \<^verbatim>\<open>preprocess_input\<close>, main-lstm.py lines 131-152. The first argument is the value of
  the global \<^verbatim>\<open>scaler\<close>, whose \<^verbatim>\<open>transform\<close> maps a 2-d array to a 2-d array or raises.
\<close>

definition preprocess_input ::
  "predictor option \<Rightarrow> MLPredictionInput \<Rightarrow> nat \<Rightarrow> py_exception + real list list list" where
  "preprocess_input scaler_handle input_data sequence_length =
     (let features = [[temperature input_data, humidity input_data,
                       populationDensity input_data,
                       real_of_int (previousCases input_data),
                       wastewaterLevels input_data,
                       socialMediaSentiment input_data]]
      in try_bind (case scaler_handle of None \<Rightarrow> Inr features | Some s \<Rightarrow> s features)
           (\<lambda>features'.
              try_bind (np_shape_1 features')
                (\<lambda>k. np_reshape_1 (np_tile_rows features' sequence_length) sequence_length k)))"

text \<open>The default \<^verbatim>\<open>sequence_length = 7\<close>, as \<^verbatim>\<open>predict_with_lstm\<close> calls it.\<close>

definition preprocess_input_default ::
  "predictor option \<Rightarrow> MLPredictionInput \<Rightarrow> py_exception + real list list list" where
  "preprocess_input_default scaler_handle input_data = preprocess_input scaler_handle input_data 7"

text \<open>The canonical feature vector of the specification (section 4.2), in its order.\<close>

definition toFeatureVector :: "MLPredictionInput \<Rightarrow> real list" where
  "toFeatureVector input_data =
     [temperature input_data, humidity input_data, populationDensity input_data,
      real_of_int (previousCases input_data), wastewaterLevels input_data,
      socialMediaSentiment input_data]"

section \<open>Properties of prediction\<close>

lemma in_double_range_example: "in_double_range 20"
  by (simp add: in_double_range_def)

lemma simulate_prediction_large_input: "simulate_prediction large_input g = Inl OverflowError"
  by (simp add: simulate_prediction_def py_float_def try_bind_def in_double_range_def
        large_input_def)

text \<open>
  The simulation on a case count within the range of a double: it returns, with the
  values of the two formulas and a confidence from the next draw. Beyond the range it
  raises.
\<close>

lemma simulate_prediction_in_range:
  assumes "in_double_range (previousCases input_data)"
  shows "simulate_prediction input_data g =
           Inr (\<lparr>riskLevel = min 100 (max 0
                    (30 + (temperature input_data - 20) * 0.5
                        + (humidity input_data - 50) * 0.3
                        + real_of_int (previousCases input_data) * 0.8
                        + wastewaterLevels input_data * 0.6)),
                 predictedCases = max 0
                    (real_of_int (previousCases input_data) * 1.1
                        + (populationDensity input_data / 1000) * 0.5
                        + (socialMediaSentiment input_data - 0.5) * 10),
                 confidence = min 95 (70 + shd g * 25),
                 featureImportance = feature_importance\<rparr>, stl g)"
  using assms
  by (simp add: simulate_prediction_def py_float_def try_bind_def np_random_random_def Let_def)

lemma simulate_prediction_overflow:
  assumes "in_double_range (previousCases input_data) = False"
  shows "simulate_prediction input_data g = Inl OverflowError"
  using assms by (simp add: simulate_prediction_def py_float_def try_bind_def)

lemma simulate_prediction_bounded:
  assumes "simulate_prediction input_data g = Inr (out, g')" and "0 \<le> shd g"
  shows "output_bounded out \<and> g' = stl g"
proof (cases "in_double_range (previousCases input_data)")
  case True
  from simulate_prediction_in_range [OF True, of g] assms show ?thesis
    by (auto simp: output_bounded_def)
next
  case False
  then have "simulate_prediction input_data g = Inl OverflowError"
    by (simp add: simulate_prediction_overflow)
  with assms show ?thesis by simp
qed

lemma model_prediction_bounded:
  assumes "model_prediction m input_data = Inr out"
  shows "output_bounded out"
  using assms
  by (auto simp: model_prediction_def output_bounded_def Let_def
           split: sum.splits)

text \<open>
  The handler either answers as the simulation does (no model, or a model path that
  raised), or returns what the model path returned.
\<close>

lemma predict_outbreak_cases:
  "predict_outbreak model input_data g = simulate_prediction input_data g
   \<or> (\<exists>m out. model = Some m \<and> model_prediction m input_data = Inr out
         \<and> predict_outbreak model input_data g = Inr (out, g))"
  by (cases model; cases "simulate_prediction input_data g")
     (auto simp: predict_outbreak_def try_bind_def Let_def split: sum.splits)

lemma predict_outbreak_returns_bounded:
  assumes "predict_outbreak model input_data g = Inr (out, g')" and "0 \<le> shd g"
  shows "output_bounded out \<and> (g' = g \<or> g' = stl g)"
  using predict_outbreak_cases [of model input_data g] assms
    simulate_prediction_bounded [of input_data g out g'] model_prediction_bounded
  by auto

lemma predict_outbreak_in_range_returns:
  assumes "in_double_range (previousCases input_data)"
  shows "\<exists>out g'. predict_outbreak model input_data g = Inr (out, g')"
  using predict_outbreak_cases [of model input_data g]
    simulate_prediction_in_range [OF assms, of g]
  by auto

lemma rng_ok_shd: "rng_ok g \<Longrightarrow> 0 \<le> shd g"
  by (simp add: rng_ok_def shd_sset)

lemma rng_ok_stl: "rng_ok g \<Longrightarrow> rng_ok (stl g)"
  by (auto simp: rng_ok_def dest: stl_sset)

text \<open>
  For a case count within the range of a double the handler returns, and its response
  is within the bounds on either path, whatever the model returns or raises.
\<close>

lemma predict_outbreak_bounded_in_range:
  assumes "rng_ok g" and "in_double_range (previousCases input_data)"
  shows "\<exists>out g'. predict_outbreak model input_data g = Inr (out, g')
           \<and> output_bounded out \<and> rng_ok g'"
proof -
  from predict_outbreak_in_range_returns [OF assms(2), of model g] obtain out g' where
    r: "predict_outbreak model input_data g = Inr (out, g')"
    by blast
  from predict_outbreak_returns_bounded [OF r rng_ok_shd [OF assms(1)]]
  have "output_bounded out" and "g' = g \<or> g' = stl g"
    by simp_all
  with assms(1) rng_ok_stl [of g] r show ?thesis
    by auto
qed

text \<open>
  For \<open>previousCases = 10 ^ 400\<close> and no model, the simulation raises in the \<^verbatim>\<open>try\<close>
  and again in the \<^verbatim>\<open>except\<close> clause.
\<close>

lemma predict_outbreak_overflow_none:
  "predict_outbreak None large_input g = Inl OverflowError"
  by (simp add: predict_outbreak_def simulate_prediction_large_input)

text \<open>
  Claim C1 says that for every valid input the response of \<open>predict_outbreak\<close> has
  \<open>0 \<le> riskLevel \<le> 100\<close>, \<open>predictedCases \<ge> 0\<close> and \<open>0 \<le> confidence \<le> 100\<close>, on the model
  path and on the simulation path. For the valid case count \<open>10 ^ 400\<close> there is no
  response: with no model loaded, and with a loaded model that raises, the handler ends
  with OverflowError.
\<close>

theorem predict_outbreak_overflow_escapes:
  "predict_outbreak None large_input g = Inl OverflowError
   \<and> predict_outbreak (Some (\<lambda>a. Inl ModelError)) large_input g = Inl OverflowError"
proof -
  have "model_prediction (\<lambda>a. Inl ModelError) large_input = Inl ModelError"
    by (simp add: model_prediction_def)
  then show ?thesis
    by (simp add: predict_outbreak_def try_bind_def simulate_prediction_large_input)
qed

text \<open>
  With no model loaded and a case count within the range of a double, the handler
  returns the risk level and the predicted cases of the specification's formulas; at the
  example input they are 78.75 and 23.75.
\<close>

lemma predict_outbreak_no_model_formula_in_range:
  assumes "in_double_range (previousCases input_data)"
  shows "\<exists>out g'. predict_outbreak None input_data g = Inr (out, g')
           \<and> riskLevel out
               = clamp (30 + (temperature input_data - 20) * 0.5
                          + (humidity input_data - 50) * 0.3
                          + real_of_int (previousCases input_data) * 0.8
                          + wastewaterLevels input_data * 0.6) 0 100
           \<and> predictedCases out
               = max 0 (real_of_int (previousCases input_data) * 1.1
                          + (populationDensity input_data / 1000) * 0.5
                          + (socialMediaSentiment input_data - 0.5) * 10)"
  using simulate_prediction_in_range [OF assms, of g]
  by (simp add: predict_outbreak_def clamp_def)

lemma predict_outbreak_no_model_example:
  "predict_outbreak None example_input g
     = Inr (\<lparr>riskLevel = 78.75, predictedCases = 23.75, confidence = min 95 (70 + shd g * 25),
             featureImportance = feature_importance\<rparr>, stl g)"
proof -
  have "in_double_range (previousCases example_input)"
    by (simp add: example_input_def in_double_range_example)
  from simulate_prediction_in_range [OF this, of g] show ?thesis
    by (simp add: predict_outbreak_def example_input_def)
qed

text \<open>
  Claim C2 says that with no model loaded \<open>predict_outbreak\<close> computes the risk level
  \<open>clamp(30 + (temperature - 20) * 0.5 + (humidity - 50) * 0.3 + previousCases * 0.8
  + wastewaterLevels * 0.6, 0, 100)\<close> and the predicted cases
  \<open>max(0, previousCases * 1.1 + (populationDensity / 1000) * 0.5
  + (socialMediaSentiment - 0.5) * 10)\<close>. For the case count \<open>10 ^ 400\<close> the formula of
  the risk level gives 100; the simulation, and with it the handler, raises
  OverflowError and computes nothing.
\<close>

theorem predict_outbreak_no_model_overflow:
  "clamp (30 + (temperature large_input - 20) * 0.5 + (humidity large_input - 50) * 0.3
            + real_of_int (previousCases large_input) * 0.8
            + wastewaterLevels large_input * 0.6) 0 100 = 100
   \<and> simulate_prediction large_input g = Inl OverflowError
   \<and> predict_outbreak None large_input g = Inl OverflowError"
proof -
  have "clamp (30 + (temperature large_input - 20) * 0.5 + (humidity large_input - 50) * 0.3
            + real_of_int (previousCases large_input) * 0.8
            + wastewaterLevels large_input * 0.6) 0 100 = 100"
    by (simp add: large_input_def example_input_def clamp_def)
  then show ?thesis
    by (simp add: predict_outbreak_def simulate_prediction_large_input)
qed

text \<open>
  Claim C3 says that two calls of the simulation with the same input return the same
  response, confidence included. In main.py they do not: the confidence is computed from
  a fresh draw of the random generator. Two successive calls at the example input, with
  the draws 0 and 1/2, return the confidences 70 and 82.5.
\<close>

theorem simulate_prediction_confidence_differs:
  "simulate_prediction example_input (0 ## 1 / 2 ## sconst 0)
     = Inr (\<lparr>riskLevel = 78.75, predictedCases = 23.75, confidence = 70,
             featureImportance = feature_importance\<rparr>, 1 / 2 ## sconst 0)
   \<and> simulate_prediction example_input (1 / 2 ## sconst 0)
     = Inr (\<lparr>riskLevel = 78.75, predictedCases = 23.75, confidence = 82.5,
             featureImportance = feature_importance\<rparr>, sconst 0)"
proof -
  have r: "in_double_range (previousCases example_input)"
    by (simp add: example_input_def in_double_range_example)
  show ?thesis
    by (simp add: simulate_prediction_in_range [OF r], simp add: example_input_def)
qed

text \<open>
  The variants main-lstm.py and main-minimal.py compute the confidence from the
  timestamp's hash: it lies between 70 and 94 and depends on the input alone.
\<close>

lemma simulate_prediction_lstm_confidence:
  assumes "simulate_prediction_lstm py_hash input_data = Inr out"
  shows "70 \<le> confidence out \<and> confidence out \<le> 94"
proof -
  have "0 \<le> py_hash (timestamp input_data) mod 25" "py_hash (timestamp input_data) mod 25 \<le> 24"
    by simp_all
  with assms show ?thesis
    by (auto simp: simulate_prediction_lstm_def py_float_def try_bind_def Let_def
             split: if_splits)
qed

section \<open>Properties of batch prediction\<close>

lemma batch_loop_append:
  "batch_loop f (xs @ ys) acc g =
     (case batch_loop f xs acc g of Inl e \<Rightarrow> Inl e | Inr (acc', g1) \<Rightarrow> batch_loop f ys acc' g1)"
  by (induction xs arbitrary: acc g) (auto split: sum.splits)

lemma batch_loop_total_in_range:
  assumes "rng_ok g" and "\<forall>x \<in> set xs. in_double_range (previousCases x)"
  shows "\<exists>outs g'. batch_loop (predict_outbreak model) xs acc g = Inr (acc @ outs, g')
           \<and> length outs = length xs \<and> rng_ok g'"
  using assms
proof (induction xs arbitrary: acc g)
  case Nil
  then show ?case by simp
next
  case (Cons x xs)
  from Cons.prems have "in_double_range (previousCases x)"
    by simp
  from predict_outbreak_bounded_in_range [OF Cons.prems(1) this, of model] obtain p g1 where
    p: "predict_outbreak model x g = Inr (p, g1)" and ok1: "rng_ok g1"
    by blast
  from Cons.prems have "\<forall>y \<in> set xs. in_double_range (previousCases y)"
    by simp
  from Cons.IH [OF ok1 this, of "acc @ [p]"] obtain outs g' where
    "batch_loop (predict_outbreak model) xs (acc @ [p]) g1 = Inr ((acc @ [p]) @ outs, g')"
    "length outs = length xs" "rng_ok g'"
    by blast
  with p show ?case
    by (intro exI [of _ "p # outs"] exI [of _ g']) simp
qed

text \<open>
  A batch of N inputs whose case counts are within the range of a double returns N
  predictions in the order of the inputs; the i-th is what \<open>predict_outbreak\<close> returns
  for the i-th input, called in the generator state that the first i items leave
  behind, and is within the bounds of a single prediction.
\<close>

lemma predict_batch_pointwise_in_range:
  assumes ok: "rng_ok g" and range: "\<forall>x \<in> set inputs. in_double_range (previousCases x)"
  shows "\<exists>predictions g'. predict_batch model inputs g = Inr (predictions, g')
           \<and> length predictions = length inputs
           \<and> (\<forall>i < length inputs.
                 (\<exists>g''. predict_outbreak model (inputs ! i) (rng_after model (take i inputs) g)
                          = Inr (predictions ! i, g''))
                 \<and> output_bounded (predictions ! i))"
proof -
  let ?F = "predict_outbreak model"
  from batch_loop_total_in_range [OF ok range, of model "[]"] obtain predictions g' where
    run: "batch_loop ?F inputs [] g = Inr (predictions, g')" and len: "length predictions = length inputs"
    by auto
  have pb: "predict_batch model inputs g = Inr (predictions, g')"
    using run by (simp add: predict_batch_def predict_batch_with_def)
  have item: "(\<exists>g''. predict_outbreak model (inputs ! i) (rng_after model (take i inputs) g)
                          = Inr (predictions ! i, g''))
                 \<and> output_bounded (predictions ! i)" if i: "i < length inputs" for i
  proof -
    have r1: "\<forall>x \<in> set (take i inputs). in_double_range (previousCases x)"
      using range by (auto dest: in_set_takeD)
    have r2: "\<forall>x \<in> set (drop (Suc i) inputs). in_double_range (previousCases x)"
      using range by (auto dest: in_set_dropD)
    have r3: "in_double_range (previousCases (inputs ! i))"
      using range i by simp
    from batch_loop_total_in_range [OF ok r1, of model "[]"] i obtain ps g1 where
      pre: "batch_loop ?F (take i inputs) [] g = Inr (ps, g1)" and lps: "length ps = i"
      and ok1: "rng_ok g1"
      by auto
    have after: "rng_after model (take i inputs) g = g1"
      using pre by (simp add: rng_after_def predict_batch_def predict_batch_with_def)
    from predict_outbreak_bounded_in_range [OF ok1 r3, of model] obtain p g2 where
      p: "predict_outbreak model (inputs ! i) g1 = Inr (p, g2)" and pb: "output_bounded p"
      and ok2: "rng_ok g2"
      by blast
    from batch_loop_total_in_range [OF ok2 r2, of model "ps @ [p]"] obtain qs g3 where
      post: "batch_loop ?F (drop (Suc i) inputs) (ps @ [p]) g2 = Inr ((ps @ [p]) @ qs, g3)"
      by auto
    have split: "inputs = take i inputs @ (inputs ! i # drop (Suc i) inputs)"
      using i by (simp add: id_take_nth_drop)
    have "batch_loop ?F inputs [] g
            = batch_loop ?F (take i inputs @ (inputs ! i # drop (Suc i) inputs)) [] g"
      using split by simp
    also have "\<dots> = batch_loop ?F (inputs ! i # drop (Suc i) inputs) ps g1"
      using pre by (simp add: batch_loop_append)
    also have "\<dots> = Inr ((ps @ [p]) @ qs, g3)"
      using p post by simp
    finally have "predictions = (ps @ [p]) @ qs"
      using run by simp
    with lps have "predictions ! i = p"
      by (simp add: nth_append)
    with p pb after show ?thesis
      by auto
  qed
  from pb len item show ?thesis by blast
qed

text \<open>
  Claim C6 says that a batch of N inputs returns N predictions, the i-th being the
  single prediction for the i-th input. For the two valid inputs of which the second has
  the case count \<open>10 ^ 400\<close>, the batch returns no prediction at all: the call for the
  second input raises, and the batch ends with \<open>HTTPException 500\<close>.
\<close>

theorem predict_batch_overflow_fails:
  "predict_batch None [example_input, large_input] g
     = Inl (HTTPException 500 ''Batch prediction failed'')"
  by (simp add: predict_batch_def predict_batch_with_def predict_outbreak_no_model_example
        predict_outbreak_overflow_none)

text \<open>
  Claim C7. If the per-item call raises at some item, after the items before it have
  been computed, the batch call as a whole ends with the one error
  \<open>HTTPException 500 ''Batch prediction failed''\<close>, which carries no prediction.
\<close>

theorem predict_batch_with_item_failure:
  assumes "inputs = before @ input_data # rest"
      and "predict_batch_with f before g = Inr (partial, g1)"
      and "f input_data g1 = Inl e"
  shows "predict_batch_with f inputs g = Inl (HTTPException 500 ''Batch prediction failed'')"
proof -
  from assms(2) have "batch_loop f before [] g = Inr (partial, g1)"
    by (auto simp: predict_batch_with_def split: sum.splits)
  with assms(1,3) have "batch_loop f inputs [] g = Inl e"
    by (simp add: batch_loop_append)
  then show ?thesis
    by (simp add: predict_batch_with_def)
qed

text \<open>
  The handler's own per-item call with no model loaded: the first item is computed, the
  second, with the case count \<open>10 ^ 400\<close>, raises, and the batch of three fails as a
  whole.
\<close>

theorem predict_batch_with_item_failure_witness:
  "[example_input, large_input, example_input] = [example_input] @ large_input # [example_input]
   \<and> predict_batch_with (predict_outbreak None) [example_input] (0 ## 1 / 2 ## sconst 0)
     = Inr ([\<lparr>riskLevel = 78.75, predictedCases = 23.75, confidence = 70,
              featureImportance = feature_importance\<rparr>], 1 / 2 ## sconst 0)
   \<and> predict_outbreak None large_input (1 / 2 ## sconst 0) = Inl OverflowError
   \<and> predict_batch_with (predict_outbreak None) [example_input, large_input, example_input]
       (0 ## 1 / 2 ## sconst 0)
     = Inl (HTTPException 500 ''Batch prediction failed'')"
proof -
  have split: "[example_input, large_input, example_input]
                 = [example_input] @ large_input # [example_input]"
    by simp
  have pre: "predict_batch_with (predict_outbreak None) [example_input] (0 ## 1 / 2 ## sconst 0)
     = Inr ([\<lparr>riskLevel = 78.75, predictedCases = 23.75, confidence = 70,
              featureImportance = feature_importance\<rparr>], 1 / 2 ## sconst 0)"
    by (simp add: predict_batch_with_def predict_outbreak_no_model_example)
  have raise: "predict_outbreak None large_input (1 / 2 ## sconst 0) = Inl OverflowError"
    by (simp add: predict_outbreak_overflow_none)
  have fail: "predict_batch_with (predict_outbreak None)
       [example_input, large_input, example_input] (0 ## 1 / 2 ## sconst 0)
     = Inl (HTTPException 500 ''Batch prediction failed'')"
    by (rule predict_batch_with_item_failure [OF split pre raise])
  from split pre raise fail show ?thesis by blast
qed

section \<open>Properties of optimisation\<close>

text \<open>
  Claim C4 says that every field of the simulated allocation is at least the current
  value. It is not when the current value is above the field's ceiling: 120 beds, a valid
  non-negative count, are answered with 100.
\<close>

theorem simulate_optimization_above_ceiling:
  "0 \<le> beds (example_resources\<lparr>beds := 120\<rparr>)
   \<and> 0 \<le> nurses (example_resources\<lparr>beds := 120\<rparr>)
   \<and> 0 \<le> doctors (example_resources\<lparr>beds := 120\<rparr>)
   \<and> 0 \<le> equipment (example_resources\<lparr>beds := 120\<rparr>)
   \<and> map_of (optimizedAllocation (simulate_optimization (example_resources\<lparr>beds := 120\<rparr>))) ''beds''
       = Some 100
   \<and> (100::int) < beds (example_resources\<lparr>beds := 120\<rparr>)"
  by (simp add: simulate_optimization_def example_resources_def)

text \<open>
  Claim C4, amended. For non-negative current counts, every field of the allocation of
  \<open>simulate_optimization\<close> lies between 0 and its ceiling (beds 100, nurses 150,
  doctors 50, equipment 100), and is at least the current value whenever the current
  value is itself at most the ceiling.
\<close>

theorem simulate_optimization_allocation:
  assumes "0 \<le> beds input_data" and "0 \<le> nurses input_data"
      and "0 \<le> doctors input_data" and "0 \<le> equipment input_data"
  shows "\<exists>b n d e.
           optimizedAllocation (simulate_optimization input_data)
             = [(''beds'', b), (''nurses'', n), (''doctors'', d), (''equipment'', e)]
           \<and> 0 \<le> b \<and> b \<le> 100 \<and> 0 \<le> n \<and> n \<le> 150
           \<and> 0 \<le> d \<and> d \<le> 50 \<and> 0 \<le> e \<and> e \<le> 100
           \<and> (beds input_data \<le> 100 \<longrightarrow> beds input_data \<le> b)
           \<and> (nurses input_data \<le> 150 \<longrightarrow> nurses input_data \<le> n)
           \<and> (doctors input_data \<le> 50 \<longrightarrow> doctors input_data \<le> d)
           \<and> (equipment input_data \<le> 100 \<longrightarrow> equipment input_data \<le> e)"
  using assms by (simp add: simulate_optimization_def)

text \<open>
  The example of the specification: 85 beds, 120 nurses, 35 doctors and 90 pieces of
  equipment give 90, 130, 37 and 93.
\<close>

theorem simulate_optimization_allocation_witness:
  "0 \<le> beds example_resources \<and> 0 \<le> nurses example_resources
   \<and> 0 \<le> doctors example_resources \<and> 0 \<le> equipment example_resources
   \<and> beds example_resources \<le> 100 \<and> nurses example_resources \<le> 150
   \<and> doctors example_resources \<le> 50 \<and> equipment example_resources \<le> 100
   \<and> optimizedAllocation (simulate_optimization example_resources)
       = [(''beds'', 90), (''nurses'', 130), (''doctors'', 37), (''equipment'', 93)]"
proof -
  have h: "0 \<le> beds example_resources" "0 \<le> nurses example_resources"
    "0 \<le> doctors example_resources" "0 \<le> equipment example_resources"
    by (simp_all add: example_resources_def)
  have c: "beds example_resources = 85" "nurses example_resources = 120"
    "doctors example_resources = 35" "equipment example_resources = 90"
    by (simp_all add: example_resources_def)
  from simulate_optimization_allocation [OF h] obtain b n d e where
    a: "optimizedAllocation (simulate_optimization example_resources)
          = [(''beds'', b), (''nurses'', n), (''doctors'', d), (''equipment'', e)]"
    and "85 \<le> b" "120 \<le> n" "35 \<le> d" "90 \<le> e"
    using c by auto
  have "optimizedAllocation (simulate_optimization example_resources)
       = [(''beds'', 90), (''nurses'', 130), (''doctors'', 37), (''equipment'', 93)]"
    by (simp add: simulate_optimization_def example_resources_def)
  with h c a show ?thesis by simp
qed

text \<open>
  Claim C5 says that optimisation with an empty \<open>currentWaitTimes\<close> does not raise and
  answers as if the mean were 0. The handler of main-working.py divides by the length of
  the list without a guard: at the empty list the call ends with
  \<open>HTTPException 500 ''Optimization failed''\<close>.
\<close>

theorem optimize_resources_working_empty_wait_times:
  "optimize_resources_working (example_resources\<lparr>currentWaitTimes := []\<rparr>)
     = Inl (HTTPException 500 ''Optimization failed'')"
  by (simp add: optimize_resources_working_def py_average_def try_bind_def)

text \<open>
  The handler of main.py does not raise there: with no model loaded it answers with the
  simulation, which does not read the list.
\<close>

lemma optimize_resources_empty_wait_times_no_model:
  "optimize_resources None (input_data\<lparr>currentWaitTimes := []\<rparr>)
     = simulate_optimization input_data"
  by (simp add: optimize_resources_def simulate_optimization_def)

text \<open>
  Claim C10. With no optimisation model loaded, two inputs that agree on beds, nurses,
  doctors and equipment get the same response from \<open>optimize_resources\<close>, whatever their
  \<open>currentWaitTimes\<close> and \<open>patientFlow\<close>.
\<close>

theorem optimize_resources_no_model_independent:
  assumes "beds a = beds b" and "nurses a = nurses b"
      and "doctors a = doctors b" and "equipment a = equipment b"
  shows "optimize_resources None a = optimize_resources None b"
  using assms by (simp add: optimize_resources_def simulate_optimization_def)

text \<open>
  Two inputs with the same counts and different series.
\<close>

theorem optimize_resources_no_model_independent_witness:
  "beds example_resources = beds (example_resources\<lparr>currentWaitTimes := [], patientFlow := [1000]\<rparr>)
   \<and> nurses example_resources = nurses (example_resources\<lparr>currentWaitTimes := [], patientFlow := [1000]\<rparr>)
   \<and> doctors example_resources = doctors (example_resources\<lparr>currentWaitTimes := [], patientFlow := [1000]\<rparr>)
   \<and> equipment example_resources = equipment (example_resources\<lparr>currentWaitTimes := [], patientFlow := [1000]\<rparr>)
   \<and> currentWaitTimes example_resources \<noteq> []
   \<and> patientFlow example_resources \<noteq> [1000]
   \<and> optimize_resources None example_resources
       = optimize_resources None (example_resources\<lparr>currentWaitTimes := [], patientFlow := [1000]\<rparr>)"
proof -
  let ?b = "example_resources\<lparr>currentWaitTimes := [], patientFlow := [1000]\<rparr>"
  have h: "beds example_resources = beds ?b" "nurses example_resources = nurses ?b"
    "doctors example_resources = doctors ?b" "equipment example_resources = equipment ?b"
    by simp_all
  have d: "currentWaitTimes example_resources \<noteq> []" "patientFlow example_resources \<noteq> [1000]"
    by (simp_all add: example_resources_def)
  have "optimize_resources None example_resources = optimize_resources None ?b"
    by (rule optimize_resources_no_model_independent [OF h])
  with h d show ?thesis by blast
qed

section \<open>Properties of startup\<close>

text \<open>
  Claim C8 says that \<open>isLoaded\<close> is false exactly when no artifact was loaded. In
  main-lstm.py the flag is computed from the sequence model and the scaler only: when the
  optimisation model is the one artifact that loads, \<open>isLoaded\<close> is False although
  \<open>optimization_model\<close> is set.
\<close>

theorem startup_event_lstm_only_optimization_model:
  "startup_event_lstm
     \<lparr>TENSORFLOW_AVAILABLE = True, SKLEARN_AVAILABLE = True,
      lstm_model_file = (Missing :: unit artifact_file),
      scaler_file = (Missing :: unit artifact_file),
      optimization_model_file = Loadable ()\<rparr>
     = \<lparr>lstm_model = None, scaler = None, optimization_model_lstm = Some (),
        isLoaded_lstm = False, modelType = ''Simulation''\<rparr>"
  by (simp add: startup_event_lstm_def load_lstm_model_def load_scaler_def)

text \<open>
  In main.py the flag is the disjunction of both artifacts when no load raises; when the
  second load raises after the first succeeded, the flag is False although
  \<open>outbreak_model\<close> is set.
\<close>

lemma startup_event_second_load_raises:
  "startup_event (Loadable ()) (Corrupt :: unit artifact_file)
     = \<lparr>outbreak_model = Some (), optimization_model = None, isLoaded = False\<rparr>"
  by (simp add: startup_event_def)

lemma startup_event_isLoaded:
  assumes "load_if_exists outbreak_file = Inr r1" and "load_if_exists optimization_file = Inr r2"
  shows "startup_event outbreak_file optimization_file
           = \<lparr>outbreak_model = r1, optimization_model = r2,
              isLoaded = (is_not_None r1 \<or> is_not_None r2)\<rparr>"
  using assms
  by (cases outbreak_file; cases optimization_file) (auto simp: startup_event_def)

lemma startup_event_lstm_isLoaded:
  "isLoaded_lstm (startup_event_lstm env)
     = (is_not_None (lstm_model (startup_event_lstm env))
        \<or> is_not_None (scaler (startup_event_lstm env)))"
  by (cases "lstm_model_file env"; cases "scaler_file env")
     (simp_all add: startup_event_lstm_def load_lstm_model_def load_scaler_def)

section \<open>Properties of preprocessing\<close>

text \<open>
  Cutting \<open>n\<close> stacked copies of a row back into rows of the row's length gives the row
  at every position.
\<close>

lemma take_drop_tiled:
  assumes "i < n"
  shows "take (length v) (drop (i * length v) (concat (replicate n v))) = v"
  using assms
proof (induction n arbitrary: i)
  case 0
  then show ?case by simp
next
  case (Suc n)
  show ?case
  proof (cases i)
    case 0
    then show ?thesis by simp
  next
    case (Suc j)
    with Suc.prems have "j < n" by simp
    from Suc.IH [OF this] Suc show ?thesis
      by (simp add: add.commute)
  qed
qed

lemma reshape_tiled_row:
  "np_reshape_1 (np_tile_rows [v] n) n (length v) = Inr [replicate n v]"
proof -
  have flat: "concat (np_tile_rows [v] n) = concat (replicate n v)"
    by (induction n) (simp_all add: np_tile_rows_def)
  have rows: "map (\<lambda>i. take (length v) (drop (i * length v) (concat (replicate n v)))) [0..<n]
                = replicate n v"
    by (rule nth_equalityI) (simp_all add: take_drop_tiled)
  have len: "length (concat (replicate n v)) = n * length v"
    by (induction n) simp_all
  show ?thesis
    by (simp add: np_reshape_1_def flat rows len)
qed

lemma preprocess_input_no_scaler:
  "preprocess_input None input_data n = Inr [replicate n (toFeatureVector input_data)]"
  using reshape_tiled_row [of "toFeatureVector input_data" n]
  by (simp add: preprocess_input_def try_bind_def toFeatureVector_def)

lemma preprocess_input_scaler:
  assumes "s [toFeatureVector input_data] = Inr [v]"
  shows "preprocess_input (Some s) input_data n = Inr [replicate n v]"
  using assms reshape_tiled_row [of v n]
  by (simp add: preprocess_input_def try_bind_def toFeatureVector_def)

text \<open>
  Claim C9. The feature vector has the six fields in the order temperature, humidity,
  populationDensity, previousCases, wastewaterLevels, socialMediaSentiment. With the
  default sequence length, \<open>preprocess_input\<close> returns one sequence of 7 rows, each equal
  to that vector when no scaler is loaded, and each equal to the scaler's row for that
  vector when a scaler is loaded.
\<close>

theorem preprocess_input_sequence:
  "toFeatureVector input_data
     = [temperature input_data, humidity input_data, populationDensity input_data,
        real_of_int (previousCases input_data), wastewaterLevels input_data,
        socialMediaSentiment input_data]
   \<and> length (toFeatureVector input_data) = 6
   \<and> preprocess_input_default None input_data = Inr [replicate 7 (toFeatureVector input_data)]
   \<and> (s [toFeatureVector input_data] = Inr [v]
        \<longrightarrow> preprocess_input_default (Some s) input_data = Inr [replicate 7 v])"
  by (simp add: preprocess_input_default_def preprocess_input_no_scaler preprocess_input_scaler)
     (simp add: toFeatureVector_def)

text \<open>
  A scaler that halves every entry, at the example input.
\<close>

theorem preprocess_input_sequence_witness:
  "(\<lambda>a. Inr (map (map (\<lambda>x. x / 2)) a)) [toFeatureVector example_input]
     = (Inr [[12.75, 30, 750, 10, 22.5, 0.3]] :: py_exception + real list list)
   \<and> preprocess_input_default (Some (\<lambda>a. Inr (map (map (\<lambda>x. x / 2)) a))) example_input
       = Inr [[[12.75, 30, 750, 10, 22.5, 0.3], [12.75, 30, 750, 10, 22.5, 0.3],
               [12.75, 30, 750, 10, 22.5, 0.3], [12.75, 30, 750, 10, 22.5, 0.3],
               [12.75, 30, 750, 10, 22.5, 0.3], [12.75, 30, 750, 10, 22.5, 0.3],
               [12.75, 30, 750, 10, 22.5, 0.3]]]
   \<and> preprocess_input_default None example_input
       = Inr [[[25.5, 60, 1500, 20, 45, 0.6], [25.5, 60, 1500, 20, 45, 0.6],
               [25.5, 60, 1500, 20, 45, 0.6], [25.5, 60, 1500, 20, 45, 0.6],
               [25.5, 60, 1500, 20, 45, 0.6], [25.5, 60, 1500, 20, 45, 0.6],
               [25.5, 60, 1500, 20, 45, 0.6]]]"
proof -
  let ?s = "\<lambda>a. (Inr (map (map (\<lambda>x. x / 2)) a) :: py_exception + real list list)"
  let ?v = "[12.75, 30, 750, 10, 22.5, 0.3] :: real list"
  have h: "?s [toFeatureVector example_input] = Inr [?v]"
    by (simp add: toFeatureVector_def example_input_def)
  have fv: "toFeatureVector example_input = [25.5, 60, 1500, 20, 45, 0.6]"
    by (simp add: toFeatureVector_def example_input_def)
  have r7: "replicate 7 x = [x, x, x, x, x, x, x]" for x :: "real list"
    by (simp add: numeral_eq_Suc)
  from preprocess_input_sequence [of example_input ?s ?v] h
  have "preprocess_input_default (Some ?s) example_input = Inr [replicate 7 ?v]"
    and "preprocess_input_default None example_input = Inr [replicate 7 (toFeatureVector example_input)]"
    by blast+
  with h fv r7 show ?thesis by simp
qed

end
